theory Spec2Isabelle
  imports Complex_Main "HOL-Library.Multiset"
begin

section \<open>Data model of scripts/develNet/createDataset.py\<close>

text \<open>
  A point of a point cloud is one row of an (n * 4) array: xyz and intensity. Python
  floats are taken as real numbers (no rounding, no NaN, no infinities).
\<close>

record point =
  px :: real
  py :: real
  pz :: real
  intensity :: real

type_synonym pcl = "point list"

text \<open>
  A waymo label. \<open>DatasetCreator\<close> reads only \<open>label.id\<close> and \<open>label.type\<close>; the
  box geometry is carried along because the specification speaks about it.
\<close>

record bbox =
  bbox_id :: string
  bbox_type :: int
  center_x :: real
  center_y :: real
  center_z :: real
  box_length :: real
  box_width :: real
  box_height :: real
  heading :: real

text \<open>
  A cluster value as Python sees it: a plain list of rows (no \<open>.shape\<close> attribute) or a
  numpy array of rows (\<open>.shape[0]\<close> is the number of rows). Python's \<open>None\<close> is the
  \<open>None\<close> of \<open>cluster option\<close>.
\<close>

datatype cluster = PyList pcl | NdArray pcl

fun rows :: "cluster \<Rightarrow> pcl" where
  "rows (PyList pts) = pts"
| "rows (NdArray pts) = pts"

text \<open>\<open>len(cluster)\<close> and \<open>np.array(cluster)\<close>.\<close>

definition len :: "cluster \<Rightarrow> int" where
  "len c = int (length (rows c))"

definition np_array :: "cluster \<Rightarrow> pcl" where
  "np_array c = rows c"

text \<open>The exceptions the modelled code can raise.\<close>

datatype error = TypeError | AttributeError | KeyError | IndexError | ValueError

text \<open>The \<open>Features\<close> object that \<open>computeClusterMetadata\<close> fills in.\<close>

record features =
  cluster_id :: string
  frame_id :: int
  cls :: int
  cnt :: int
  parameters :: "real list"

text \<open>
  The dictionary \<open>obj_pcls\<close>: bbox label id to cluster or \<open>None\<close>. The outer option is
  the presence of the key, the inner one Python's \<open>None\<close>.
\<close>

type_synonym clusters = "string \<rightharpoonup> cluster option"

section \<open>computeClusterMetadata\<close>

text \<open>
  \<open>extract_cluster_parameters\<close> lives in modules/helperFunctions, outside the file at
  hand; it is the parameter \<open>ecp\<close>, called on \<open>np_cluster\<close> alone and free to raise.
  The statements follow the source in order: the \<open>None\<close> test, the conversion, the
  attribute assignments (\<open>cluster.shape[0]\<close> is read from the argument itself, and a
  plain list has no \<open>shape\<close>), then the call of the helper.
\<close>

definition computeClusterMetadata ::
  "(pcl \<Rightarrow> error + real list) \<Rightarrow> cluster option \<Rightarrow> bbox \<Rightarrow> int \<Rightarrow> error + features" where
  "computeClusterMetadata ecp cluster bbox fid =
     (case cluster of
        None \<Rightarrow> Inl TypeError
      | Some c \<Rightarrow>
          (let np_cluster = np_array c in
           case c of
             PyList pts \<Rightarrow> Inl AttributeError
           | NdArray pts \<Rightarrow>
               (case ecp np_cluster of
                  Inl e \<Rightarrow> Inl e
                | Inr ps \<Rightarrow>
                    Inr \<lparr>cluster_id = bbox_id bbox, frame_id = fid, cls = bbox_type bbox,
                         cnt = int (length pts), parameters = ps\<rparr>)))"


text \<open>
  A stand-in for the absent helper, used only where a statement is evaluated at a
  concrete input: eight parameters, the last one the number of points.
\<close>

definition count_parameters :: "pcl \<Rightarrow> error + real list" where
  "count_parameters pts = Inr [0, 0, 0, 0, 0, 0, 0, real (length pts)]"

definition unit_box :: bbox where
  "unit_box = \<lparr>bbox_id = ''a'', bbox_type = 2, center_x = 0, center_y = 0, center_z = 0,
                box_length = 1, box_width = 1, box_height = 1, heading = 0\<rparr>"

definition origin :: point where
  "origin = \<lparr>px = 0, py = 0, pz = 0, intensity = 0\<rparr>"

text \<open>
  The specification's density: the point count of the record over the volume of the box,
  taken from the box dimensions, at index 7 of the parameters.
\<close>

definition box_volume :: "bbox \<Rightarrow> real" where
  "box_volume b = box_length b * box_width b * box_height b"

definition density_from_box :: "features \<Rightarrow> bbox \<Rightarrow> bool" where
  "density_from_box r b =
     (7 < length (parameters r) \<and> parameters r ! 7 = real_of_int (cnt r) / box_volume b)"

section \<open>filterPcl\<close>

text \<open>
  \<open>remove_groundplane\<close> lives in modules/helperFunctions; \<open>filterPcl\<close> takes it as the
  parameter \<open>rg\<close>. The comprehension \<open>[list(pt) for pt in pcl]\<close> copies the rows; the
  debug log of the number of removed points is not modelled.
\<close>

definition filterPcl :: "(pcl \<Rightarrow> pcl) \<Rightarrow> pcl \<Rightarrow> pcl" where
  "filterPcl rg pcl = (let pcl_out = rg (map (\<lambda>pt. pt) pcl) in pcl_out)"

text \<open>Modelled from the spec: \<open>remove_groundplane\<close> of modules/helperFunctions is missing
  from the sources. The specification has it remove the points estimated to lie on the
  ground surface, the ground model being a replaceable strategy that may look at the whole
  cloud (a planar fit) or at the height of the point alone (a height band).
\<close>

definition remove_groundplane :: "(pcl \<Rightarrow> point \<Rightarrow> bool) \<Rightarrow> pcl \<Rightarrow> pcl" where
  "remove_groundplane ground cloud = filter (\<lambda>p. \<not> ground cloud p) cloud"

text \<open>Modelled from the spec: a height-based ground model decides from the height of the
  point whether it is ground; \<open>band\<close> is the set of heights taken as ground.
\<close>

definition height_based :: "(real \<Rightarrow> bool) \<Rightarrow> pcl \<Rightarrow> point \<Rightarrow> bool" where
  "height_based band cloud p = band (pz p)"

section \<open>clusterByBBox\<close>

text \<open>
  \<open>get_pts_in_bbox\<close> lives in modules/helperFunctions; it is the parameter \<open>gp\<close>, the
  membership test of the box. The loop body stores the cluster under \<open>label.id\<close> when it
  has at least \<open>thresh\<close> points and \<open>None\<close> otherwise; a later label with the same id
  overwrites the entry of an earlier one.
\<close>

fun clusterByBBox_loop ::
  "(pcl \<Rightarrow> bbox \<Rightarrow> cluster) \<Rightarrow> pcl \<Rightarrow> bbox list \<Rightarrow> int \<Rightarrow> clusters \<Rightarrow> clusters" where
  "clusterByBBox_loop gp pcl [] thresh obj_pcls = obj_pcls"
| "clusterByBBox_loop gp pcl (label # rest) thresh obj_pcls =
     (let cluster = gp pcl label in
      if len cluster \<ge> thresh
      then clusterByBBox_loop gp pcl rest thresh (obj_pcls(bbox_id label \<mapsto> Some cluster))
      else clusterByBBox_loop gp pcl rest thresh (obj_pcls(bbox_id label \<mapsto> None)))"

definition clusterByBBox ::
  "(pcl \<Rightarrow> bbox \<Rightarrow> cluster) \<Rightarrow> pcl \<Rightarrow> bbox list \<Rightarrow> int \<Rightarrow> clusters" where
  "clusterByBBox gp pcl bboxes thresh = clusterByBBox_loop gp pcl bboxes thresh Map.empty"

text \<open>A call of \<open>clusterByBBox\<close>: \<open>thresh\<close> defaults to 5.\<close>

definition clusterByBBox_call ::
  "(pcl \<Rightarrow> bbox \<Rightarrow> cluster) \<Rightarrow> pcl \<Rightarrow> bbox list \<Rightarrow> int option \<Rightarrow> clusters" where
  "clusterByBBox_call gp pcl bboxes thresh_arg =
     clusterByBBox gp pcl bboxes (case thresh_arg of None \<Rightarrow> 5 | Some t \<Rightarrow> t)"

section \<open>filterMetadata\<close>

text \<open>
  The loop reads \<open>c.parameters[7]\<close> (IndexError on fewer than eight parameters) and, for
  a record over the threshold, \<open>clusters[c.cluster_id]\<close> (KeyError on a missing key)
  before it appends the record. The accumulator is the pair of \<open>filtered_metadata\<close> and
  \<open>filtered_clusters\<close>.
\<close>

fun filterMetadata_loop ::
  "features list \<Rightarrow> clusters \<Rightarrow> real \<Rightarrow> features list \<times> clusters \<Rightarrow>
   error + (features list \<times> clusters)" where
  "filterMetadata_loop [] clusters thresh acc = Inr acc"
| "filterMetadata_loop (c # rest) clusters thresh (filtered_metadata, filtered_clusters) =
     (if length (parameters c) \<le> 7 then Inl IndexError
      else if parameters c ! 7 > thresh then
        (case clusters (cluster_id c) of
           None \<Rightarrow> Inl KeyError
         | Some v \<Rightarrow>
             filterMetadata_loop rest clusters thresh
               (filtered_metadata @ [c], filtered_clusters(cluster_id c \<mapsto> v)))
      else filterMetadata_loop rest clusters thresh (filtered_metadata, filtered_clusters))"

definition filterMetadata ::
  "features list \<Rightarrow> clusters \<Rightarrow> real \<Rightarrow> error + (features list \<times> clusters)" where
  "filterMetadata metadata clusters thresh =
     filterMetadata_loop metadata clusters thresh ([], Map.empty)"

text \<open>
  A call of \<open>filterMetadata\<close> as Python binds it: \<open>clusters\<close> is a required positional
  parameter, and a call that leaves it out raises TypeError before the body runs;
  \<open>thresh\<close> defaults to 20.
\<close>

definition filterMetadata_call ::
  "features list \<Rightarrow> clusters option \<Rightarrow> real option \<Rightarrow> error + (features list \<times> clusters)" where
  "filterMetadata_call metadata clusters_arg thresh_arg =
     (case clusters_arg of
        None \<Rightarrow> Inl TypeError
      | Some clusters \<Rightarrow>
          filterMetadata metadata clusters (case thresh_arg of None \<Rightarrow> 20 | Some t \<Rightarrow> t))"

section \<open>filterMetadata on a store\<close>

text \<open>
  For the effect of \<open>filterMetadata\<close> on its arguments, the lists and dictionaries are
  objects of a store, named by addresses: \<open>metadata\<close> and \<open>clusters\<close> are addresses of
  objects the caller owns, \<open>filtered_metadata = []\<close> and \<open>filtered_clusters = {}\<close> allocate
  fresh ones, \<open>append\<close> and the item assignment update the store at an address. The
  \<open>Features\<close> objects and the arrays are never written and stay values.
\<close>

record heap =
  list_at :: "nat \<Rightarrow> features list"
  dict_at :: "nat \<Rightarrow> clusters"
  next_list :: nat
  next_dict :: nat

definition new_list :: "heap \<Rightarrow> nat \<times> heap" where
  "new_list h =
     (next_list h, h\<lparr>list_at := (list_at h)(next_list h := []), next_list := Suc (next_list h)\<rparr>)"

definition new_dict :: "heap \<Rightarrow> nat \<times> heap" where
  "new_dict h =
     (next_dict h,
      h\<lparr>dict_at := (dict_at h)(next_dict h := Map.empty), next_dict := Suc (next_dict h)\<rparr>)"

definition list_append :: "nat \<Rightarrow> features \<Rightarrow> heap \<Rightarrow> heap" where
  "list_append a c h = h\<lparr>list_at := (list_at h)(a := list_at h a @ [c])\<rparr>"

definition dict_setitem :: "nat \<Rightarrow> string \<Rightarrow> cluster option \<Rightarrow> heap \<Rightarrow> heap" where
  "dict_setitem a k v h = h\<lparr>dict_at := (dict_at h)(a := (dict_at h a)(k \<mapsto> v))\<rparr>"

text \<open>
  The loop \<open>for i in range(len(metadata))\<close>: the indices are fixed when the loop starts,
  each iteration reads \<open>metadata[i]\<close> and \<open>clusters[c.cluster_id]\<close> from the store as it
  is then. The result is the exception raised, if any, and the store.
\<close>

fun filterMetadata_heap_loop ::
  "nat list \<Rightarrow> nat \<Rightarrow> nat \<Rightarrow> real \<Rightarrow> nat \<Rightarrow> nat \<Rightarrow> heap \<Rightarrow> error option \<times> heap" where
  "filterMetadata_heap_loop [] metadata clusters thresh filtered_metadata filtered_clusters h =
     (None, h)"
| "filterMetadata_heap_loop (i # indices) metadata clusters thresh filtered_metadata
     filtered_clusters h =
     (if length (list_at h metadata) \<le> i then (Some IndexError, h)
      else
        let c = list_at h metadata ! i in
        if length (parameters c) \<le> 7 then (Some IndexError, h)
        else if parameters c ! 7 > thresh then
          (case dict_at h clusters (cluster_id c) of
             None \<Rightarrow> (Some KeyError, h)
           | Some v \<Rightarrow>
               filterMetadata_heap_loop indices metadata clusters thresh filtered_metadata
                 filtered_clusters
                 (list_append filtered_metadata c
                    (dict_setitem filtered_clusters (cluster_id c) v h)))
        else
          filterMetadata_heap_loop indices metadata clusters thresh filtered_metadata
            filtered_clusters h)"

definition filterMetadata_heap ::
  "nat \<Rightarrow> nat \<Rightarrow> real \<Rightarrow> heap \<Rightarrow> (error + nat \<times> nat) \<times> heap" where
  "filterMetadata_heap metadata clusters thresh h =
     (let (filtered_metadata, h1) = new_list h;
          (filtered_clusters, h2) = new_dict h1
      in case filterMetadata_heap_loop [0..<length (list_at h2 metadata)] metadata clusters
                thresh filtered_metadata filtered_clusters h2 of
           (Some e, h') \<Rightarrow> (Inl e, h')
         | (None, h') \<Rightarrow> (Inr (filtered_metadata, filtered_clusters), h'))"

section \<open>parseFrame\<close>

text \<open>
  The comprehension of \<open>DatasetCreator.parseFrame\<close>: for each box in order, the test
  \<open>clusters[b.id] is not None\<close>, then the extraction; the first exception ends it.
\<close>

fun metadata_of_present ::
  "(pcl \<Rightarrow> error + real list) \<Rightarrow> clusters \<Rightarrow> int \<Rightarrow> bbox list \<Rightarrow> error + features list" where
  "metadata_of_present ecp clusters fid [] = Inr []"
| "metadata_of_present ecp clusters fid (b # bs) =
     (case clusters (bbox_id b) of
        None \<Rightarrow> Inl KeyError
      | Some None \<Rightarrow> metadata_of_present ecp clusters fid bs
      | Some (Some c) \<Rightarrow>
          (case computeClusterMetadata ecp (Some c) b fid of
             Inl e \<Rightarrow> Inl e
           | Inr f \<Rightarrow>
               (case metadata_of_present ecp clusters fid bs of
                  Inl e \<Rightarrow> Inl e
                | Inr fs \<Rightarrow> Inr (f # fs))))"

text \<open>
  \<open>DatasetCreator.parseFrame\<close>, from the unpacked frame on. The value is what the method
  hands to \<open>saveClusterMetadata\<close>. The call \<open>self.filterMetadata(metadata)\<close> gives no
  \<open>clusters\<close> argument and no threshold; \<open>clusterByBBox\<close> is called without a
  threshold as well.
\<close>

definition parseFrame ::
  "(pcl \<Rightarrow> pcl) \<Rightarrow> (pcl \<Rightarrow> bbox \<Rightarrow> cluster) \<Rightarrow> (pcl \<Rightarrow> error + real list) \<Rightarrow>
   pcl \<Rightarrow> bbox list \<Rightarrow> int \<Rightarrow> error + (features list \<times> clusters)" where
  "parseFrame rg gp ecp pcl0 bboxes fid =
     (let pcl = filterPcl rg pcl0;
          clusters = clusterByBBox_call gp pcl bboxes None
      in case metadata_of_present ecp clusters fid bboxes of
           Inl e \<Rightarrow> Inl e
         | Inr metadata \<Rightarrow> filterMetadata_call metadata None None)"

text \<open>
  \<open>DatasetCreatorVis.parseFrame\<close>: the same stages, with the valid clusters and boxes
  collected by a loop of their own and handed to \<open>filterMetadata\<close>. Of the pair it
  gets back, \<open>sub_metadata\<close> goes to \<open>saveClusterMetadata\<close> and \<open>sub_clusters\<close> to
  the publisher; the value of the model is the pair.
\<close>

fun valid_loop ::
  "clusters \<Rightarrow> bbox list \<Rightarrow> clusters \<times> bbox list \<Rightarrow> error + (clusters \<times> bbox list)" where
  "valid_loop clusters [] acc = Inr acc"
| "valid_loop clusters (bbox # rest) (valid_clusters, valid_bboxes) =
     (case clusters (bbox_id bbox) of
        None \<Rightarrow> Inl KeyError
      | Some None \<Rightarrow> valid_loop clusters rest (valid_clusters, valid_bboxes)
      | Some (Some c) \<Rightarrow>
          valid_loop clusters rest
            (valid_clusters(bbox_id bbox \<mapsto> Some c), valid_bboxes @ [bbox]))"

fun metadata_of_valid ::
  "(pcl \<Rightarrow> error + real list) \<Rightarrow> clusters \<Rightarrow> int \<Rightarrow> bbox list \<Rightarrow> error + features list" where
  "metadata_of_valid ecp valid_clusters fid [] = Inr []"
| "metadata_of_valid ecp valid_clusters fid (bbox # bs) =
     (case valid_clusters (bbox_id bbox) of
        None \<Rightarrow> Inl KeyError
      | Some c \<Rightarrow>
          (case computeClusterMetadata ecp c bbox fid of
             Inl e \<Rightarrow> Inl e
           | Inr f \<Rightarrow>
               (case metadata_of_valid ecp valid_clusters fid bs of
                  Inl e \<Rightarrow> Inl e
                | Inr fs \<Rightarrow> Inr (f # fs))))"

text \<open>
  Publishing to rviz is outside the model, but for one effect: in mode 4,
  \<open>np.concatenate(sub_clusters.values())\<close> raises ValueError on an empty dictionary
  (mode 3 does the same inside a \<open>try\<close> that swallows it).
\<close>

definition parseFrame_vis ::
  "int \<Rightarrow> (pcl \<Rightarrow> pcl) \<Rightarrow> (pcl \<Rightarrow> bbox \<Rightarrow> cluster) \<Rightarrow> (pcl \<Rightarrow> error + real list) \<Rightarrow>
   pcl \<Rightarrow> bbox list \<Rightarrow> int \<Rightarrow> error + (features list \<times> clusters)" where
  "parseFrame_vis visualize rg gp ecp pcl0 bboxes fid =
     (let pcl = filterPcl rg pcl0;
          clusters = clusterByBBox_call gp pcl bboxes None
      in case valid_loop clusters bboxes (Map.empty, []) of
           Inl e \<Rightarrow> Inl e
         | Inr (valid_clusters, valid_bboxes) \<Rightarrow>
             (case metadata_of_valid ecp valid_clusters fid valid_bboxes of
                Inl e \<Rightarrow> Inl e
              | Inr metadata \<Rightarrow>
                  (case filterMetadata_call metadata (Some valid_clusters) None of
                     Inl e \<Rightarrow> Inl e
                   | Inr (sub_metadata, sub_clusters) \<Rightarrow>
                       if visualize = 4 \<and> dom sub_clusters = {} then Inl ValueError
                       else Inr (sub_metadata, sub_clusters))))"

section \<open>Concrete inputs\<close>

text \<open>
  A stand-in for the absent membership test, used only where a statement is evaluated at
  a concrete input: the points within half the dimensions of the centre, the heading
  taken as 0.
\<close>

definition inside_axis_aligned :: "bbox \<Rightarrow> point \<Rightarrow> bool" where
  "inside_axis_aligned b p =
     (\<bar>px p - center_x b\<bar> \<le> box_length b / 2 \<and> \<bar>py p - center_y b\<bar> \<le> box_width b / 2 \<and>
      \<bar>pz p - center_z b\<bar> \<le> box_height b / 2)"

definition pts_in_axis_aligned :: "pcl \<Rightarrow> bbox \<Rightarrow> cluster" where
  "pts_in_axis_aligned pcl b = NdArray (filter (inside_axis_aligned b) pcl)"

definition far_box :: bbox where
  "far_box = unit_box\<lparr>bbox_id := ''b'', center_x := 10\<rparr>"

definition dense_record :: features where
  "dense_record = \<lparr>cluster_id = ''a'', frame_id = 0, cls = 2, cnt = 200,
                    parameters = [0, 0, 0, 0, 0, 0, 0, 25]\<rparr>"

definition sparse_record :: features where
  "sparse_record = \<lparr>cluster_id = ''b'', frame_id = 0, cls = 2, cnt = 100,
                     parameters = [0, 0, 0, 0, 0, 0, 0, 25 / 2]\<rparr>"

definition example_clusters :: clusters where
  "example_clusters = [''a'' \<mapsto> Some (NdArray [origin]), ''b'' \<mapsto> Some (NdArray [])]"

definition example_heap :: heap where
  "example_heap = \<lparr>list_at = (\<lambda>a. [])(0 := [dense_record, sparse_record]),
                    dict_at = (\<lambda>a. Map.empty)(0 := example_clusters),
                    next_list = 1, next_dict = 1\<rparr>"

section \<open>Properties of computeClusterMetadata\<close>

text \<open>
  C10: the point count is read from \<open>cluster.shape[0]\<close> of the argument, not from the
  converted array; a cluster that is not \<open>None\<close> and has no \<open>shape\<close> attribute (a plain
  Python list) makes the call raise AttributeError, whatever the helper would do.
\<close>

theorem computeClusterMetadata_list_AttributeError:
  "computeClusterMetadata ecp (Some (PyList pts)) bbox fid = Inl AttributeError"
  by (simp add: computeClusterMetadata_def)



text \<open>
  C4, as the code has it: the parameters (index 7 among them) come from
  \<open>extract_cluster_parameters(np_cluster)\<close>, which is handed the cluster only. For a
  fixed cluster they are the same for every box and every frame index, so a larger box
  leaves the density feature where it was.
\<close>

theorem computeClusterMetadata_parameters_ignore_box:
  "map_sum id parameters (computeClusterMetadata ecp cluster bbox fid) =
   map_sum id parameters (computeClusterMetadata ecp cluster bbox' fid')"
proof (cases cluster)
  case None
  then show ?thesis by (simp add: computeClusterMetadata_def)
next
  case (Some c)
  show ?thesis
  proof (cases c)
    case (PyList pts)
    with Some show ?thesis by (simp add: computeClusterMetadata_def)
  next
    case (NdArray pts)
    with Some show ?thesis
      by (cases "ecp pts") (simp_all add: computeClusterMetadata_def np_array_def)
  qed
qed

text \<open>
  C4 as stated fails: one point in a box of volume 1 and in a box of volume 2 gives the
  same feature at index 7, which is not the point count over the volume of the larger
  box and has not decreased.
\<close>

theorem computeClusterMetadata_density_counterexample:
  "computeClusterMetadata count_parameters (Some (NdArray [origin])) unit_box 0 =
     Inr \<lparr>cluster_id = ''a'', frame_id = 0, cls = 2, cnt = 1,
          parameters = [0, 0, 0, 0, 0, 0, 0, 1]\<rparr> \<and>
   computeClusterMetadata count_parameters (Some (NdArray [origin]))
       (unit_box\<lparr>box_length := 2\<rparr>) 0 =
     Inr \<lparr>cluster_id = ''a'', frame_id = 0, cls = 2, cnt = 1,
          parameters = [0, 0, 0, 0, 0, 0, 0, 1]\<rparr> \<and>
   box_volume unit_box = 1 \<and> box_volume (unit_box\<lparr>box_length := 2\<rparr>) = 2 \<and>
   \<not> density_from_box
       \<lparr>cluster_id = ''a'', frame_id = 0, cls = 2, cnt = 1,
        parameters = [0, 0, 0, 0, 0, 0, 0, 1]\<rparr> (unit_box\<lparr>box_length := 2\<rparr>)"
  by (simp add: computeClusterMetadata_def count_parameters_def np_array_def unit_box_def
      box_volume_def density_from_box_def)

text \<open>
  C6, as the code has it: the box geometry is never read. The outcome of the call, record
  or exception, is the same whatever the centre, the dimensions and the heading of the
  box are; a zero or negative volume is not detected and raises nothing of its own.
\<close>

theorem computeClusterMetadata_ignores_geometry:
  "computeClusterMetadata ecp cluster
     (bbox\<lparr>center_x := cx, center_y := cy, center_z := cz,
            box_length := l, box_width := w, box_height := h, heading := yaw\<rparr>) fid =
   computeClusterMetadata ecp cluster bbox fid"
  by (simp add: computeClusterMetadata_def split: option.split cluster.split sum.split)

text \<open>
  C6 as stated fails: a box of height 0 (volume 0) around a one-point cluster raises
  nothing; the record is returned.
\<close>

theorem computeClusterMetadata_zero_volume_counterexample:
  "box_volume (unit_box\<lparr>box_height := 0\<rparr>) = 0 \<and>
   computeClusterMetadata count_parameters (Some (NdArray [origin]))
       (unit_box\<lparr>box_height := 0\<rparr>) 7 =
     Inr \<lparr>cluster_id = ''a'', frame_id = 7, cls = 2, cnt = 1,
          parameters = [0, 0, 0, 0, 0, 0, 0, 1]\<rparr>"
  by (simp add: computeClusterMetadata_def count_parameters_def np_array_def unit_box_def
      box_volume_def)

section \<open>Properties of filterPcl\<close>

text \<open>
  C7: whatever the ground model, the output of the ground-plane filter is a sub-multiset
  of its input, and the empty cloud gives the empty cloud.
\<close>

theorem filterPcl_sub_multiset:
  "mset (filterPcl (remove_groundplane ground) pcl) \<subseteq># mset pcl \<and>
   filterPcl (remove_groundplane ground) [] = []"
  by (simp add: filterPcl_def remove_groundplane_def)

text \<open>
  C8: with a height-based ground model, filtering the output of the filter again removes
  no further point.
\<close>

theorem filterPcl_idempotent:
  "filterPcl (remove_groundplane (height_based band))
     (filterPcl (remove_groundplane (height_based band)) pcl) =
   filterPcl (remove_groundplane (height_based band)) pcl"
  by (simp add: filterPcl_def remove_groundplane_def height_based_def)

section \<open>Properties of clusterByBBox\<close>

lemma clusterByBBox_loop_other:
  "k \<notin> bbox_id ` set bs \<Longrightarrow> clusterByBBox_loop gp pcl bs t m k = m k"
  by (induction bs arbitrary: m) (auto simp: Let_def)

lemma clusterByBBox_loop_dom:
  "dom (clusterByBBox_loop gp pcl bs t m) = dom m \<union> bbox_id ` set bs"
  by (induction bs arbitrary: m) (auto simp: Let_def)

lemma clusterByBBox_loop_entry:
  "distinct (map bbox_id bs) \<Longrightarrow> b \<in> set bs \<Longrightarrow>
   clusterByBBox_loop gp pcl bs t m (bbox_id b) =
     Some (if len (gp pcl b) < t then None else Some (gp pcl b))"
proof (induction bs arbitrary: m)
  case Nil
  then show ?case by simp
next
  case (Cons a bs)
  show ?case
  proof (cases "b = a")
    case True
    from Cons.prems have "bbox_id a \<notin> bbox_id ` set bs" by simp
    with True show ?thesis
      by (simp add: Let_def clusterByBBox_loop_other)
  next
    case False
    with Cons.prems have "b \<in> set bs" "distinct (map bbox_id bs)" by simp_all
    then show ?thesis
      by (simp add: Let_def Cons.IH)
  qed
qed

text \<open>
  C5, as the code has it: for boxes with pairwise distinct ids, the mapping has
  an entry for the id of each box and for nothing else; the entry is \<open>None\<close> exactly
  when fewer than \<open>thresh\<close> points of the cloud are in the box, and the cluster
  otherwise. The function has no raising branch: an empty or too small cluster is an
  ordinary entry. A call without a threshold uses 5.
\<close>

theorem clusterByBBox_entries:
  assumes "distinct (map bbox_id bboxes)"
  shows "dom (clusterByBBox gp pcl bboxes thresh) = bbox_id ` set bboxes \<and>
    (\<forall>b \<in> set bboxes. clusterByBBox gp pcl bboxes thresh (bbox_id b) =
       Some (if len (gp pcl b) < thresh then None else Some (gp pcl b))) \<and>
    clusterByBBox_call gp pcl bboxes None = clusterByBBox gp pcl bboxes 5"
  using assms
  by (simp add: clusterByBBox_call_def clusterByBBox_def clusterByBBox_loop_dom
      clusterByBBox_loop_entry)

theorem clusterByBBox_entries_witness:
  "distinct (map bbox_id [unit_box, far_box]) \<and>
   dom (clusterByBBox pts_in_axis_aligned [origin] [unit_box, far_box] 1) = {''a'', ''b''} \<and>
   clusterByBBox pts_in_axis_aligned [origin] [unit_box, far_box] 1 ''a'' =
     Some (Some (NdArray [origin])) \<and>
   clusterByBBox pts_in_axis_aligned [origin] [unit_box, far_box] 1 ''b'' = Some None"
proof -
  have d: "distinct (map bbox_id [unit_box, far_box])"
    by (simp add: unit_box_def far_box_def)
  have ids: "bbox_id unit_box = ''a''" "bbox_id far_box = ''b''"
    by (simp_all add: unit_box_def far_box_def)
  have near: "pts_in_axis_aligned [origin] unit_box = NdArray [origin]"
    by (simp add: pts_in_axis_aligned_def inside_axis_aligned_def unit_box_def origin_def)
  have far: "pts_in_axis_aligned [origin] far_box = NdArray []"
    by (simp add: pts_in_axis_aligned_def inside_axis_aligned_def unit_box_def far_box_def
        origin_def)
  from clusterByBBox_entries [OF d, of pts_in_axis_aligned "[origin]" 1] d
  show ?thesis
    by (simp add: ids near far len_def insert_commute)
qed

text \<open>
  With a repeated id the dictionary keeps one entry for the two boxes, written last by the
  later box, whatever the membership test is.
\<close>

lemma clusterByBBox_repeated_id:
  "bbox_id b1 = bbox_id b2 \<Longrightarrow>
   clusterByBBox gp pcl [b1, b2] thresh (bbox_id b1) =
     Some (if len (gp pcl b2) < thresh then None else Some (gp pcl b2))"
  by (simp add: clusterByBBox_def Let_def)

text \<open>
  C5 as stated fails: two boxes with the id \<open>a\<close>, the first around the five points of
  the cloud and the second away from them, threshold 5. The first box holds five points,
  not fewer than the threshold, and its entry is \<open>None\<close>.
\<close>

theorem clusterByBBox_repeated_id_counterexample:
  "bbox_id (far_box\<lparr>bbox_id := ''a''\<rparr>) = bbox_id unit_box \<and>
   len (pts_in_axis_aligned [origin, origin, origin, origin, origin] unit_box) = 5 \<and>
   clusterByBBox pts_in_axis_aligned [origin, origin, origin, origin, origin]
     [unit_box, far_box\<lparr>bbox_id := ''a''\<rparr>] 5 (bbox_id unit_box) = Some None"
  by (simp add: clusterByBBox_def pts_in_axis_aligned_def inside_axis_aligned_def len_def
      unit_box_def far_box_def origin_def Let_def)

section \<open>Properties of filterMetadata\<close>

lemma restrict_map_step:
  "clusters k = Some v \<Longrightarrow>
   fc(k \<mapsto> v) ++ (clusters |` S) = fc ++ (clusters |` insert k S)"
  by (rule ext) (simp add: map_add_def restrict_map_def split: option.split)

lemma filterMetadata_loop_result:
  assumes "\<forall>r \<in> set ms. 8 \<le> length (parameters r)"
    and "\<forall>r \<in> set ms. thresh < parameters r ! 7 \<longrightarrow> cluster_id r \<in> dom clusters"
  shows "filterMetadata_loop ms clusters thresh (fm, fc) =
    Inr (fm @ filter (\<lambda>r. thresh < parameters r ! 7) ms,
         fc ++ (clusters |` (cluster_id ` set (filter (\<lambda>r. thresh < parameters r ! 7) ms))))"
  using assms
proof (induction ms arbitrary: fm fc)
  case Nil
  then show ?case by simp
next
  case (Cons c ms)
  then show ?case
    by (auto simp: restrict_map_step)
qed

text \<open>
  C3, as the code has it: when every record has its eight parameters and the cluster
  mapping has an entry for the id of each record over the threshold, the call returns
  exactly the records with \<open>parameters[7] > thresh\<close>, in the order of the input, and the
  cluster mapping restricted to their ids. The ids of the returned mapping are the ids of
  the returned records, and each surviving record is over the threshold. A call without
  a threshold filters at 20.
\<close>

theorem filterMetadata_result:
  assumes "\<forall>r \<in> set metadata. 8 \<le> length (parameters r)"
    and "\<forall>r \<in> set metadata. thresh < parameters r ! 7 \<longrightarrow> cluster_id r \<in> dom clusters"
  shows "\<exists>fm fc. filterMetadata metadata clusters thresh = Inr (fm, fc) \<and>
           fm = filter (\<lambda>r. thresh < parameters r ! 7) metadata \<and>
           dom fc = cluster_id ` set fm \<and>
           fc = clusters |` (cluster_id ` set fm) \<and>
           (\<forall>r \<in> set fm. thresh < parameters r ! 7) \<and>
           filterMetadata_call metadata (Some clusters) None = filterMetadata metadata clusters 20"
proof -
  let ?fm = "filter (\<lambda>r. thresh < parameters r ! 7) metadata"
  have res: "filterMetadata metadata clusters thresh =
      Inr (?fm, clusters |` (cluster_id ` set ?fm))"
    using assms by (simp add: filterMetadata_def filterMetadata_loop_result)
  have "cluster_id ` set ?fm \<subseteq> dom clusters"
    using assms(2) by auto
  then have "dom (clusters |` (cluster_id ` set ?fm)) = cluster_id ` set ?fm"
    by auto
  moreover have "\<forall>r \<in> set ?fm. thresh < parameters r ! 7"
    by simp
  moreover have "filterMetadata_call metadata (Some clusters) None =
      filterMetadata metadata clusters 20"
    by (simp add: filterMetadata_call_def)
  ultimately show ?thesis
    using res by blast
qed

theorem filterMetadata_result_witness:
  "filterMetadata [dense_record, sparse_record] example_clusters 20 =
     Inr ([dense_record], example_clusters |` {''a''}) \<and>
   dom (example_clusters |` {''a''}) = {''a''}"
proof -
  have len8: "\<forall>r \<in> set [dense_record, sparse_record]. 8 \<le> length (parameters r)"
    by (simp add: dense_record_def sparse_record_def)
  have keys: "\<forall>r \<in> set [dense_record, sparse_record].
      20 < parameters r ! 7 \<longrightarrow> cluster_id r \<in> dom example_clusters"
    by (simp add: dense_record_def sparse_record_def example_clusters_def)
  have kept: "filter (\<lambda>r. 20 < parameters r ! 7) [dense_record, sparse_record] = [dense_record]"
    by (simp add: dense_record_def sparse_record_def)
  have id: "cluster_id dense_record = ''a''"
    by (simp add: dense_record_def)
  from filterMetadata_result [OF len8 keys]
  obtain fm fc
    where res: "filterMetadata [dense_record, sparse_record] example_clusters 20 = Inr (fm, fc)"
      and fm: "fm = filter (\<lambda>r. 20 < parameters r ! 7) [dense_record, sparse_record]"
      and ids: "dom fc = cluster_id ` set fm"
      and fc: "fc = example_clusters |` (cluster_id ` set fm)"
    by blast
  from fm kept have fm': "fm = [dense_record]"
    by simp
  with fc id have fc': "fc = example_clusters |` {''a''}"
    by simp
  from ids fm' id fc' have "dom (example_clusters |` {''a''}) = {''a''}"
    by simp
  with res fm' fc' show ?thesis
    by simp
qed

text \<open>
  C3 as stated fails: a record over the threshold whose id is not a key of the cluster
  mapping makes the call raise KeyError; nothing is returned.
\<close>

theorem filterMetadata_KeyError_counterexample:
  "filterMetadata [dense_record] Map.empty 20 = Inl KeyError"
  by (simp add: filterMetadata_def dense_record_def)

section \<open>Properties of filterMetadata on a store\<close>

lemma filterMetadata_heap_loop_list_at:
  "a \<noteq> fm \<Longrightarrow>
   list_at (snd (filterMetadata_heap_loop indices m cl t fm fc h)) a = list_at h a"
  by (induction indices arbitrary: h)
     (auto simp: Let_def list_append_def dict_setitem_def split: option.split)

lemma filterMetadata_heap_loop_dict_at:
  "b \<noteq> fc \<Longrightarrow>
   dict_at (snd (filterMetadata_heap_loop indices m cl t fm fc h)) b = dict_at h b"
  by (induction indices arbitrary: h)
     (auto simp: Let_def list_append_def dict_setitem_def split: option.split)

lemma snd_result_case:
  "snd (case p of (Some e, h') \<Rightarrow> (f e, h') | (None, h') \<Rightarrow> (g, h')) = snd p"
  by (cases p) (auto split: option.split)

text \<open>
  C9: the list and the dictionary handed to \<open>filterMetadata\<close> are the same objects with
  the same contents after the call as before it, whether it returns or raises: the call
  writes to the two objects it allocates and to nothing else.
\<close>

theorem filterMetadata_heap_frame:
  assumes "metadata < next_list h" and "clusters < next_dict h"
  shows "list_at (snd (filterMetadata_heap metadata clusters thresh h)) metadata =
           list_at h metadata \<and>
         dict_at (snd (filterMetadata_heap metadata clusters thresh h)) clusters =
           dict_at h clusters"
  using assms
  by (simp add: filterMetadata_heap_def new_list_def new_dict_def snd_result_case
      filterMetadata_heap_loop_list_at filterMetadata_heap_loop_dict_at)

theorem filterMetadata_heap_frame_witness:
  "(0::nat) < next_list example_heap \<and> (0::nat) < next_dict example_heap \<and>
   list_at (snd (filterMetadata_heap 0 0 20 example_heap)) 0 = [dense_record, sparse_record] \<and>
   dict_at (snd (filterMetadata_heap 0 0 20 example_heap)) 0 = example_clusters"
proof -
  have a: "(0::nat) < next_list example_heap" and b: "(0::nat) < next_dict example_heap"
    by (simp_all add: example_heap_def)
  from filterMetadata_heap_frame [OF a b, of 20] a b
  show ?thesis
    by (simp add: example_heap_def)
qed

text \<open>
  The store version computes what \<open>filterMetadata\<close> computes on the contents of its
  arguments: the same exception, or the two fresh objects holding the filtered list and
  the filtered dictionary.
\<close>

lemma filterMetadata_heap_loop_refines:
  assumes "m \<noteq> fm" and "cl \<noteq> fc" and "list_at h m = ms" and "dict_at h cl = d"
    and "i \<le> length ms"
  shows "case filterMetadata_loop (drop i ms) d t (list_at h fm, dict_at h fc) of
           Inl e \<Rightarrow> fst (filterMetadata_heap_loop [i..<length ms] m cl t fm fc h) = Some e
         | Inr r \<Rightarrow>
             filterMetadata_heap_loop [i..<length ms] m cl t fm fc h =
               (None, h\<lparr>list_at := (list_at h)(fm := fst r),
                         dict_at := (dict_at h)(fc := snd r)\<rparr>)"
  using assms
proof (induction "length ms - i" arbitrary: i h)
  case 0
  then show ?case by simp
next
  case (Suc n)
  then have i: "i < length ms" by simp
  then have dr: "drop i ms = ms ! i # drop (Suc i) ms"
    by (simp add: Cons_nth_drop_Suc)
  from i have up: "[i..<length ms] = i # [Suc i..<length ms]"
    by (simp add: upt_conv_Cons)
  let ?c = "ms ! i"
  show ?case
  proof (cases "length (parameters ?c) \<le> 7")
    case True
    with i Suc.prems show ?thesis by (simp add: dr up)
  next
    case long: False
    show ?thesis
    proof (cases "parameters ?c ! 7 > t")
      case False
      have "case filterMetadata_loop (drop (Suc i) ms) d t (list_at h fm, dict_at h fc) of
           Inl e \<Rightarrow> fst (filterMetadata_heap_loop [Suc i..<length ms] m cl t fm fc h) = Some e
         | Inr r \<Rightarrow>
             filterMetadata_heap_loop [Suc i..<length ms] m cl t fm fc h =
               (None, h\<lparr>list_at := (list_at h)(fm := fst r),
                         dict_at := (dict_at h)(fc := snd r)\<rparr>)"
        using Suc.hyps(2) Suc.prems i by (intro Suc.hyps(1)) simp_all
      with False long i Suc.prems show ?thesis
        by (simp add: dr up split: sum.splits)
    next
      case True
      show ?thesis
      proof (cases "d (cluster_id ?c)")
        case None
        with True long i Suc.prems show ?thesis by (simp add: dr up)
      next
        case (Some v)
        let ?h = "list_append fm ?c (dict_setitem fc (cluster_id ?c) v h)"
        have "case filterMetadata_loop (drop (Suc i) ms) d t (list_at ?h fm, dict_at ?h fc) of
           Inl e \<Rightarrow> fst (filterMetadata_heap_loop [Suc i..<length ms] m cl t fm fc ?h) = Some e
         | Inr r \<Rightarrow>
             filterMetadata_heap_loop [Suc i..<length ms] m cl t fm fc ?h =
               (None, ?h\<lparr>list_at := (list_at ?h)(fm := fst r),
                          dict_at := (dict_at ?h)(fc := snd r)\<rparr>)"
          using Suc.hyps(2) Suc.prems i
          by (intro Suc.hyps(1)) (simp_all add: list_append_def dict_setitem_def)
        with Some True long i Suc.prems show ?thesis
          by (simp add: dr up Let_def list_append_def dict_setitem_def split: sum.splits)
      qed
    qed
  qed
qed

lemma filterMetadata_heap_refines:
  assumes "metadata < next_list h" and "clusters < next_dict h"
  shows "case filterMetadata (list_at h metadata) (dict_at h clusters) thresh of
           Inl e \<Rightarrow> fst (filterMetadata_heap metadata clusters thresh h) = Inl e
         | Inr (fm, fc) \<Rightarrow>
             fst (filterMetadata_heap metadata clusters thresh h) =
               Inr (next_list h, next_dict h) \<and>
             list_at (snd (filterMetadata_heap metadata clusters thresh h)) (next_list h) = fm \<and>
             dict_at (snd (filterMetadata_heap metadata clusters thresh h)) (next_dict h) = fc"
proof -
  let ?h2 = "h\<lparr>list_at := (list_at h)(next_list h := []), next_list := Suc (next_list h),
               dict_at := (dict_at h)(next_dict h := Map.empty),
               next_dict := Suc (next_dict h)\<rparr>"
  have "case filterMetadata_loop (drop 0 (list_at h metadata)) (dict_at h clusters) thresh
               (list_at ?h2 (next_list h), dict_at ?h2 (next_dict h)) of
           Inl e \<Rightarrow>
             fst (filterMetadata_heap_loop [0..<length (list_at h metadata)] metadata clusters
                thresh (next_list h) (next_dict h) ?h2) = Some e
         | Inr r \<Rightarrow>
             filterMetadata_heap_loop [0..<length (list_at h metadata)] metadata clusters
                thresh (next_list h) (next_dict h) ?h2 =
               (None, ?h2\<lparr>list_at := (list_at ?h2)(next_list h := fst r),
                          dict_at := (dict_at ?h2)(next_dict h := snd r)\<rparr>)"
    using assms by (intro filterMetadata_heap_loop_refines) simp_all
  with assms show ?thesis
    by (auto simp: filterMetadata_heap_def filterMetadata_def new_list_def new_dict_def
        split: sum.splits prod.splits option.splits)
qed

section \<open>Properties of parseFrame\<close>

text \<open>
  C1: \<open>DatasetCreator.parseFrame\<close> runs the ground filter, the clustering and the
  extraction for the boxes whose cluster is present, and then calls
  \<open>self.filterMetadata(metadata)\<close> without the \<open>clusters\<close> argument the method
  requires. For every frame the call ends in an exception, the one of the extraction or
  this TypeError; for the frame with no points and no boxes it is the TypeError. Nothing
  is ever handed on.
\<close>

theorem parseFrame_raises:
  "isl (parseFrame rg gp ecp pcl bboxes fid) \<and>
   parseFrame rg gp ecp [] [] fid = Inl TypeError"
  by (simp add: parseFrame_def filterMetadata_call_def split: sum.split)

text \<open>
  The sibling \<open>DatasetCreatorVis.parseFrame\<close> passes the valid clusters and returns on
  the same frames. One frame, 21 points at the origin and two boxes, one around them and
  one away from them, run through both methods:
\<close>

lemma parseFrame_vis_empty_frame:
  "parseFrame_vis 0 rg gp ecp [] [] fid = Inr ([], Map.empty)"
  by (simp add: parseFrame_vis_def filterMetadata_call_def clusterByBBox_call_def
      clusterByBBox_def filterMetadata_def)

lemma parseFrame_vis_example:
  "parseFrame_vis 0 (remove_groundplane (height_based (\<lambda>z. z < - 1))) pts_in_axis_aligned
     count_parameters (replicate 21 origin) [unit_box, far_box] 3 =
   Inr ([\<lparr>cluster_id = ''a'', frame_id = 3, cls = 2, cnt = 21,
          parameters = [0, 0, 0, 0, 0, 0, 0, 21]\<rparr>],
        [''a'' \<mapsto> Some (NdArray (replicate 21 origin))])"
  by (simp add: parseFrame_vis_def filterPcl_def remove_groundplane_def height_based_def
      clusterByBBox_call_def clusterByBBox_def pts_in_axis_aligned_def
      inside_axis_aligned_def len_def np_array_def
      computeClusterMetadata_def count_parameters_def filterMetadata_call_def
      filterMetadata_def unit_box_def far_box_def origin_def Let_def)

lemma parseFrame_example:
  "parseFrame (remove_groundplane (height_based (\<lambda>z. z < - 1))) pts_in_axis_aligned
     count_parameters (replicate 21 origin) [unit_box, far_box] 3 = Inl TypeError"
  by (simp add: parseFrame_def filterPcl_def remove_groundplane_def height_based_def
      clusterByBBox_call_def clusterByBBox_def pts_in_axis_aligned_def
      inside_axis_aligned_def len_def np_array_def
      computeClusterMetadata_def count_parameters_def filterMetadata_call_def
      unit_box_def far_box_def origin_def Let_def)

end
